theory Spec2Isabelle
  imports Main "HOL-Library.Word" "HOL-Library.Char_ord" "HOL-Library.List_Lexorder"
begin

section \<open>django\_twilio.decorators: the data the decorated view handles\<close>

text \<open>
  The module \<^verbatim>\<open>django_twilio/decorators.py\<close> defines \<^verbatim>\<open>twilio_view\<close>, which wraps a
  view \<^verbatim>\<open>f\<close> into \<^verbatim>\<open>decorated_view\<close>. Python values are dynamically typed, so the values
  that \<^verbatim>\<open>decorated_view\<close> receives, reads from the settings, gets back from its
  collaborators and returns are all of one type of Python values.
\<close>

type_synonym params = "(string \<times> string) list"

text \<open>
  A Django \<^verbatim>\<open>HttpRequest\<close>, with the attributes the view reads: \<^verbatim>\<open>request.method\<close>,
  the value of \<^verbatim>\<open>request.build_absolute_uri()\<close>, the dictionary \<^verbatim>\<open>request.META\<close> and the
  two parameter sets \<^verbatim>\<open>request.GET\<close> and \<^verbatim>\<open>request.POST\<close>.
\<close>

record request =
  "method" :: string
  absolute_uri :: string
  META :: "string \<rightharpoonup> string"
  GET :: params
  POST :: params

datatype exn = AssertionError | AttributeError | KeyError

datatype content = Text string | Bytes "8 word list"

text \<open>
  The three response classes the view instantiates: \<^verbatim>\<open>HttpResponse(content, content_type=...)\<close>,
  \<^verbatim>\<open>HttpResponseForbidden()\<close> and \<^verbatim>\<open>HttpResponseNotAllowed(permitted_methods)\<close>, with the
  status code Django gives each class.
\<close>

datatype http_response =
    HttpResponse content string
  | HttpResponseForbidden
  | HttpResponseNotAllowed string

fun status_code :: "http_response \<Rightarrow> nat" where
  "status_code (HttpResponse c ct) = 200"
| "status_code HttpResponseForbidden = 403"
| "status_code (HttpResponseNotAllowed m) = 405"

text \<open>
  Python values. \<open>PyVerb\<close> is an instance of \<^verbatim>\<open>twilio.twiml.Verb\<close>, \<open>PyRequest\<close> an instance
  of \<^verbatim>\<open>HttpRequest\<close>, \<open>PyResponse\<close> an instance of one of the three response classes above,
  and \<open>PyObject\<close> an instance of any other class (one that defines neither \<^verbatim>\<open>__bool__\<close> nor
  \<^verbatim>\<open>__len__\<close>, such as a response object of another class).
\<close>

datatype ('v, 'o) pyval =
    PyNone
  | PyBool bool
  | PyInt int
  | PyStr string
  | PyBytes "8 word list"
  | PyVerb 'v
  | PyRequest request
  | PyResponse http_response
  | PyObject 'o

text \<open>The truth value Python gives a value in \<^verbatim>\<open>if v:\<close> and \<^verbatim>\<open>not v\<close>.\<close>

fun truthy :: "('v, 'o) pyval \<Rightarrow> bool" where
  "truthy PyNone = False"
| "truthy (PyBool b) = b"
| "truthy (PyInt i) = (i \<noteq> 0)"
| "truthy (PyStr s) = (s \<noteq> [])"
| "truthy (PyBytes bs) = (bs \<noteq> [])"
| "truthy (PyVerb v) = True"
| "truthy (PyRequest r) = True"
| "truthy (PyResponse r) = True"
| "truthy (PyObject x) = True"

text \<open>
  \<^verbatim>\<open>django.conf.settings\<close>: \<^verbatim>\<open>DEBUG\<close> is always there; the two settings of this package
  are read with \<^verbatim>\<open>getattr(settings, NAME, default)\<close> and may be absent (\<open>None\<close>).
\<close>

record ('v, 'o) settings =
  DEBUG :: "('v, 'o) pyval"
  DJANGO_TWILIO_FORGERY_PROTECTION :: "('v, 'o) pyval option"
  DJANGO_TWILIO_BLACKLIST_CHECK :: "('v, 'o) pyval option"

text \<open>
  What the view reads from outside the module. \<open>TWILIO_AUTH_TOKEN\<close> is the module constant
  imported from \<^verbatim>\<open>.settings\<close> (\<open>None\<close> is Python's \<^verbatim>\<open>None\<close>). \<open>validate token uri params
  signature\<close> is \<^verbatim>\<open>RequestValidator(token).validate(uri, params, signature)\<close> of the twilio
  library. \<open>get_blacklisted_response\<close> is the function imported from \<^verbatim>\<open>.utils\<close>; it queries
  the database, so it takes and returns the state \<open>'w\<close> of the world outside the view.
  \<open>str_verb\<close> is \<^verbatim>\<open>str\<close> on a \<^verbatim>\<open>Verb\<close>.
\<close>

record ('v, 'o, 'w) env =
  settings :: "('v, 'o) settings"
  TWILIO_AUTH_TOKEN :: "string option"
  validate :: "string \<Rightarrow> string \<Rightarrow> params \<Rightarrow> string \<Rightarrow> bool"
  get_blacklisted_response :: "request \<Rightarrow> 'w \<Rightarrow> ('v, 'o) pyval \<times> 'w"
  str_verb :: "'v \<Rightarrow> string"

text \<open>
  The steps of one call that involve a check or a collaborator, in the order they happen:
  the method check of line 105, the call of \<^verbatim>\<open>validator.validate\<close> with its three
  arguments, the call of \<^verbatim>\<open>get_blacklisted_response\<close> and the call of the wrapped view.
\<close>

datatype event =
    MethodCheck string
  | Validate string params string
  | BlacklistCheck
  | HandlerCall

fun rank :: "event \<Rightarrow> nat" where
  "rank (MethodCheck m) = 0"
| "rank (Validate u p s) = 1"
| "rank BlacklistCheck = 2"
| "rank HandlerCall = 3"

text \<open>
  What a call of the view leaves behind: the value returned or the exception raised, the
  steps taken, and the state of the world.
\<close>

record ('v, 'o, 'w) result =
  outcome :: "exn + ('v, 'o) pyval"
  calls :: "event list"
  world :: 'w

section \<open>The decorated view\<close>

text \<open>Lines 98--102: \<^verbatim>\<open>getattr(settings, 'DJANGO_TWILIO_FORGERY_PROTECTION', not settings.DEBUG)\<close>.\<close>

definition use_forgery_protection :: "('v, 'o) settings \<Rightarrow> ('v, 'o) pyval" where
  "use_forgery_protection st =
     (case DJANGO_TWILIO_FORGERY_PROTECTION st of
        Some v \<Rightarrow> v
      | None \<Rightarrow> PyBool (\<not> truthy (DEBUG st)))"

text \<open>Lines 124--128: \<^verbatim>\<open>getattr(settings, 'DJANGO_TWILIO_BLACKLIST_CHECK', True)\<close>.\<close>

definition check_blacklist :: "('v, 'o) settings \<Rightarrow> ('v, 'o) pyval" where
  "check_blacklist st =
     (case DJANGO_TWILIO_BLACKLIST_CHECK st of
        Some v \<Rightarrow> v
      | None \<Rightarrow> PyBool True)"

text \<open>
  Modelled from the spec: the constructor of \<^verbatim>\<open>twilio.util.RequestValidator\<close> is not part of
  the module. The spec says that an unavailable secret is a verification failure, and line
  113 catches \<^verbatim>\<open>AttributeError\<close>: the constructor raises it when the token is \<^verbatim>\<open>None\<close>, and
  otherwise gives a validator that holds the token.
\<close>

definition RequestValidator :: "string option \<Rightarrow> exn + string" where
  "RequestValidator token =
     (case token of None \<Rightarrow> Inl AttributeError | Some t \<Rightarrow> Inr t)"

text \<open>
  Lines 110--112, the body of the \<^verbatim>\<open>try\<close>: the validator, the URL and the signature header.
  \<^verbatim>\<open>request.META['HTTP_X_TWILIO_SIGNATURE']\<close> raises \<^verbatim>\<open>KeyError\<close> when the key is absent.
\<close>

definition assemble :: "('v, 'o, 'w) env \<Rightarrow> request \<Rightarrow> exn + (string \<times> string \<times> string)" where
  "assemble e r =
     (case RequestValidator (TWILIO_AUTH_TOKEN e) of
        Inl x \<Rightarrow> Inl x
      | Inr validator \<Rightarrow>
          (let url = absolute_uri r in
           case META r ''HTTP_X_TWILIO_SIGNATURE'' of
             None \<Rightarrow> Inl KeyError
           | Some signature \<Rightarrow> Inr (validator, url, signature)))"

text \<open>
  Lines 105--121, the body of \<^verbatim>\<open>if use_forgery_protection:\<close>. The first component is
  \<open>None\<close> when control falls through to line 123, \<open>Some (Inr resp)\<close> when the view returns
  \<open>resp\<close> there, and \<open>Some (Inl x)\<close> when an exception that line 113 does not catch leaves
  the view.
\<close>

definition forgery_check ::
  "('v, 'o, 'w) env \<Rightarrow> request \<Rightarrow> (exn + http_response) option \<times> event list" where
  "forgery_check e r =
     (if method r \<notin> set [''GET'', ''POST'']
      then (Some (Inr (HttpResponseNotAllowed (method r))), [MethodCheck (method r)])
      else
        (case assemble e r of
           Inl x \<Rightarrow>
             (if x = AttributeError \<or> x = KeyError
              then (Some (Inr HttpResponseForbidden), [MethodCheck (method r)])
              else (Some (Inl x), [MethodCheck (method r)]))
         | Inr (validator, url, signature) \<Rightarrow>
             (if method r = ''POST''
              then
                (if \<not> validate e validator url (POST r) signature
                 then (Some (Inr HttpResponseForbidden),
                       [MethodCheck (method r), Validate url (POST r) signature])
                 else (None, [MethodCheck (method r), Validate url (POST r) signature]))
              else if method r = ''GET''
              then
                (if \<not> validate e validator url (GET r) signature
                 then (Some (Inr HttpResponseForbidden),
                       [MethodCheck (method r), Validate url (GET r) signature])
                 else (None, [MethodCheck (method r), Validate url (GET r) signature]))
              else (None, [MethodCheck (method r)]))))"

text \<open>
  Lines 124--132, the blacklist check. The first component is the response the view returns
  at line 132, if it does.
\<close>

definition blacklist_check ::
  "('v, 'o, 'w) env \<Rightarrow> request \<Rightarrow> 'w \<Rightarrow> ('v, 'o) pyval option \<times> event list \<times> 'w" where
  "blacklist_check e r w =
     (if truthy (check_blacklist (settings e))
      then
        (let (blacklisted_resp, w') = get_blacklisted_response e r w in
         if truthy blacklisted_resp
         then (Some blacklisted_resp, [BlacklistCheck], w')
         else (None, [BlacklistCheck], w'))
      else (None, [], w))"

text \<open>Lines 136--141, what the view makes of the value the wrapped view returned.\<close>

fun coerce :: "('v, 'o, 'w) env \<Rightarrow> ('v, 'o) pyval \<Rightarrow> ('v, 'o) pyval" where
  "coerce e (PyStr s) = PyResponse (HttpResponse (Text s) ''application/xml'')"
| "coerce e (PyBytes bs) = PyResponse (HttpResponse (Bytes bs) ''application/xml'')"
| "coerce e (PyVerb v) = PyResponse (HttpResponse (Text (str_verb e v)) ''application/xml'')"
| "coerce e response = response"

text \<open>
  Lines 103--121: the forgery check is made only when \<^verbatim>\<open>use_forgery_protection\<close> is true.
\<close>

definition forgery_protection ::
  "('v, 'o, 'w) env \<Rightarrow> request \<Rightarrow> (exn + http_response) option \<times> event list" where
  "forgery_protection e r =
     (if truthy (use_forgery_protection (settings e))
      then forgery_check e r
      else (None, []))"

text \<open>
  Lines 123--141: the blacklist check, then the call of the wrapped view \<open>f\<close> and the
  return of what it gave, as a response. \<open>args\<close> stands for \<^verbatim>\<open>*args, **kwargs\<close>, which the
  view hands to \<open>f\<close> as they are. \<open>f\<close> may change the world, as the blacklist query may.
\<close>

definition guarded_call ::
  "('v, 'o, 'w) env \<Rightarrow> (request \<Rightarrow> 'a \<Rightarrow> 'w \<Rightarrow> ('v, 'o) pyval \<times> 'w) \<Rightarrow>
   request \<Rightarrow> 'a \<Rightarrow> 'w \<Rightarrow> ('v, 'o, 'w) result" where
  "guarded_call e f r args w =
     (let (denied, log2, w2) = blacklist_check e r w
      in case denied of
           Some blacklisted_resp \<Rightarrow>
             \<lparr>outcome = Inr blacklisted_resp, calls = log2, world = w2\<rparr>
         | None \<Rightarrow>
             (let (response, w3) = f r args w2
              in \<lparr>outcome = Inr (coerce e response),
                  calls = log2 @ [HandlerCall], world = w3\<rparr>))"

text \<open>
  \<^verbatim>\<open>decorated_view(request, *args, **kwargs)\<close>, lines 91--141, for the wrapped view \<open>f\<close>. The
  first argument is any Python value: line 93 asserts that it is an \<^verbatim>\<open>HttpRequest\<close>.
\<close>

definition decorated_view ::
  "('v, 'o, 'w) env \<Rightarrow> (request \<Rightarrow> 'a \<Rightarrow> 'w \<Rightarrow> ('v, 'o) pyval \<times> 'w) \<Rightarrow>
   ('v, 'o) pyval \<Rightarrow> 'a \<Rightarrow> 'w \<Rightarrow> ('v, 'o, 'w) result" where
  "decorated_view e f arg args w =
     (case arg of
        PyRequest r \<Rightarrow>
          (let (early, log1) = forgery_protection e r
           in case early of
                Some (Inl x) \<Rightarrow> \<lparr>outcome = Inl x, calls = log1, world = w\<rparr>
              | Some (Inr resp) \<Rightarrow>
                  \<lparr>outcome = Inr (PyResponse resp), calls = log1, world = w\<rparr>
              | None \<Rightarrow>
                  (let res = guarded_call e f r args w
                   in res\<lparr>calls := log1 @ calls res\<rparr>))
      | _ \<Rightarrow> \<lparr>outcome = Inl AssertionError, calls = [], world = w\<rparr>)"

section \<open>The signature verifier\<close>

text \<open>
  Modelled from the spec: the Signature Verifier is \<^verbatim>\<open>RequestValidator.validate\<close> of the
  twilio library, which the module imports and whose code is not part of it. The spec's
  contract: the message is the URL followed by the parameters, sorted by name, each as its
  name followed by its value; the signature is the base64 encoding of the keyed hash of the
  message under the secret; the claimed signature is compared with it by an equality check
  that does not stop at the first byte that differs; the secret is not empty, and with an
  empty secret the verification fails. The keyed hash is the parameter \<open>hmac\<close> (key first,
  then message); the spec does not fix the hash function, so all that is known of a digest
  is that it has at least one byte.
\<close>

datatype digest = Digest "8 word" "8 word list"

fun digest_bytes :: "digest \<Rightarrow> 8 word list" where
  "digest_bytes (Digest b bs) = b # bs"

definition b64_alphabet :: string where
  "b64_alphabet = ''ABCDEFGHIJKLMNOPQRSTUVWXYZabcdefghijklmnopqrstuvwxyz0123456789+/''"

definition b64 :: "nat \<Rightarrow> char" where
  "b64 n = b64_alphabet ! (n mod 64)"

fun base64 :: "8 word list \<Rightarrow> string" where
  "base64 [] = []"
| "base64 [a] =
     [b64 (unat a div 4), b64 (unat a mod 4 * 16), CHR ''='', CHR ''='']"
| "base64 [a, b] =
     [b64 (unat a div 4), b64 (unat a mod 4 * 16 + unat b div 16),
      b64 (unat b mod 16 * 4), CHR ''='']"
| "base64 (a # b # c # rest) =
     [b64 (unat a div 4), b64 (unat a mod 4 * 16 + unat b div 16),
      b64 (unat b mod 16 * 4 + unat c div 64), b64 (unat c mod 64)] @ base64 rest"

definition serialize :: "params \<Rightarrow> string" where
  "serialize ps = concat (map (\<lambda>(k, v). k @ v) (sort_key fst ps))"

definition message :: "string \<Rightarrow> params \<Rightarrow> string" where
  "message url ps = url @ serialize ps"

definition sign :: "(string \<Rightarrow> string \<Rightarrow> digest) \<Rightarrow> string \<Rightarrow> string \<Rightarrow> params \<Rightarrow> string" where
  "sign hmac secret url ps = base64 (digest_bytes (hmac secret (message url ps)))"

definition compare :: "string \<Rightarrow> string \<Rightarrow> bool" where
  "compare a b =
     (if length a \<noteq> length b then False
      else fold (\<lambda>(x, y) acc. acc \<and> x = y) (zip a b) True)"

definition verifier ::
  "(string \<Rightarrow> string \<Rightarrow> digest) \<Rightarrow> string \<Rightarrow> string \<Rightarrow> params \<Rightarrow> string \<Rightarrow> bool" where
  "verifier hmac secret url ps signature =
     (if secret = [] then False
      else compare (sign hmac secret url ps) signature)"

section \<open>A running example\<close>

text \<open>
  A production configuration with neither setting of the package set, a validator that
  accepts the signature \<open>''valid''\<close>, one blacklisted caller, and a wrapped view that
  returns TwiML as text and counts its calls in the world.
\<close>

definition ex_settings :: "(string, nat) settings" where
  "ex_settings =
     \<lparr>DEBUG = PyBool False,
      DJANGO_TWILIO_FORGERY_PROTECTION = None,
      DJANGO_TWILIO_BLACKLIST_CHECK = None\<rparr>"

definition ex_reject :: "(string, nat) pyval" where
  "ex_reject = PyResponse (HttpResponse (Text ''<Response><Reject/></Response>'') ''application/xml'')"

definition ex_env :: "(string, nat, nat) env" where
  "ex_env =
     \<lparr>settings = ex_settings,
      TWILIO_AUTH_TOKEN = Some ''abc123'',
      validate = (\<lambda>token uri ps signature. signature = ''valid''),
      get_blacklisted_response =
        (\<lambda>r w. (if map_of (POST r) ''From'' = Some ''+15550000000'' then ex_reject else PyNone, w)),
      str_verb = (\<lambda>v. v)\<rparr>"

definition ex_debug_env :: "(string, nat, nat) env" where
  "ex_debug_env = ex_env\<lparr>settings := ex_settings\<lparr>DEBUG := PyBool True\<rparr>\<rparr>"

definition ex_view :: "request \<Rightarrow> unit \<Rightarrow> nat \<Rightarrow> (string, nat) pyval \<times> nat" where
  "ex_view r args w = (PyStr ''<Response/>'', Suc w)"

definition ex_request :: request where
  "ex_request =
     \<lparr>method = ''POST'',
      absolute_uri = ''https://example.com/sms'',
      META = [''HTTP_X_TWILIO_SIGNATURE'' \<mapsto> ''valid''],
      GET = [],
      POST = [(''From'', ''+15551234567''), (''Body'', ''hi'')]\<rparr>"

definition ex_denied_request :: request where
  "ex_denied_request = ex_request\<lparr>POST := [(''From'', ''+15550000000'')]\<rparr>"

text \<open>A stand-in for the keyed hash, with a digest of three bytes.\<close>

definition ex_hmac :: "string \<Rightarrow> string \<Rightarrow> digest" where
  "ex_hmac key msg =
     Digest (of_nat (length key)) [of_nat (length msg), of_nat (of_char (last msg))]"

section \<open>Properties of the decorated view\<close>

lemmas ex_defs = ex_settings_def ex_reject_def ex_env_def ex_debug_env_def ex_view_def
  ex_request_def ex_denied_request_def

lemma forgery_check_method:
  "method r \<notin> set [''GET'', ''POST''] \<Longrightarrow>
   forgery_check e r =
     (Some (Inr (HttpResponseNotAllowed (method r))), [MethodCheck (method r)])"
  by (simp add: forgery_check_def)

lemma forgery_check_missing:
  "method r \<in> set [''GET'', ''POST''] \<Longrightarrow>
   TWILIO_AUTH_TOKEN e = None \<or> META r ''HTTP_X_TWILIO_SIGNATURE'' = None \<Longrightarrow>
   forgery_check e r = (Some (Inr HttpResponseForbidden), [MethodCheck (method r)])"
  by (auto simp: forgery_check_def assemble_def RequestValidator_def split: option.splits)

lemma forgery_check_verify:
  "method r \<in> set [''GET'', ''POST''] \<Longrightarrow>
   TWILIO_AUTH_TOKEN e = Some t \<Longrightarrow> META r ''HTTP_X_TWILIO_SIGNATURE'' = Some s \<Longrightarrow>
   ps = (if method r = ''POST'' then POST r else GET r) \<Longrightarrow>
   forgery_check e r =
     (if validate e t (absolute_uri r) ps s then None else Some (Inr HttpResponseForbidden),
      [MethodCheck (method r), Validate (absolute_uri r) ps s])"
  by (auto simp: forgery_check_def assemble_def RequestValidator_def)

lemma guarded_call_denied:
  "truthy (check_blacklist (settings e)) \<Longrightarrow> truthy (fst (get_blacklisted_response e r w)) \<Longrightarrow>
   guarded_call e f r args w =
     \<lparr>outcome = Inr (fst (get_blacklisted_response e r w)), calls = [BlacklistCheck],
      world = snd (get_blacklisted_response e r w)\<rparr>"
  by (simp add: guarded_call_def blacklist_check_def split_def Let_def)

lemma guarded_call_allowed:
  "truthy (check_blacklist (settings e)) \<Longrightarrow> \<not> truthy (fst (get_blacklisted_response e r w)) \<Longrightarrow>
   guarded_call e f r args w =
     \<lparr>outcome = Inr (coerce e (fst (f r args (snd (get_blacklisted_response e r w))))),
      calls = [BlacklistCheck, HandlerCall],
      world = snd (f r args (snd (get_blacklisted_response e r w)))\<rparr>"
  by (simp add: guarded_call_def blacklist_check_def split_def Let_def)

lemma guarded_call_unchecked:
  "\<not> truthy (check_blacklist (settings e)) \<Longrightarrow>
   guarded_call e f r args w =
     \<lparr>outcome = Inr (coerce e (fst (f r args w))), calls = [HandlerCall],
      world = snd (f r args w)\<rparr>"
  by (simp add: guarded_call_def blacklist_check_def split_def Let_def)

lemma view_rejected:
  "forgery_protection e r = (Some (Inr resp), log1) \<Longrightarrow>
   decorated_view e f (PyRequest r) args w =
     \<lparr>outcome = Inr (PyResponse resp), calls = log1, world = w\<rparr>"
  by (simp add: decorated_view_def)

lemma view_passed:
  "forgery_protection e r = (None, log1) \<Longrightarrow>
   decorated_view e f (PyRequest r) args w =
     (guarded_call e f r args w)\<lparr>calls := log1 @ calls (guarded_call e f r args w)\<rparr>"
  by (simp add: decorated_view_def Let_def)

lemma forgery_check_cases:
  "(\<exists>resp. forgery_check e r = (Some (Inr resp), [MethodCheck (method r)])) \<or>
   (\<exists>resp u p s. forgery_check e r = (Some (Inr resp), [MethodCheck (method r), Validate u p s])) \<or>
   (\<exists>u p s. forgery_check e r = (None, [MethodCheck (method r), Validate u p s]))"
  by (auto simp: forgery_check_def assemble_def RequestValidator_def split: option.splits)

lemma guarded_call_calls:
  "calls (guarded_call e f r args w) \<in>
     {[BlacklistCheck], [BlacklistCheck, HandlerCall], [HandlerCall]}"
  by (simp add: guarded_call_def blacklist_check_def split_def Let_def)

lemma view_calls_sorted:
  "sorted_wrt (\<lambda>a b. rank a < rank b) (calls (decorated_view e f arg args w))"
proof (cases arg)
  case (PyRequest r)
  show ?thesis
  proof (cases "truthy (use_forgery_protection (settings e))")
    case True
    then have fp: "forgery_protection e r = forgery_check e r"
      by (simp add: forgery_protection_def)
    from forgery_check_cases [of e r] guarded_call_calls [of e f r args w]
    show ?thesis
      unfolding PyRequest
      by (auto simp: fp view_rejected view_passed)
  next
    case False
    then have "forgery_protection e r = (None, [])"
      by (simp add: forgery_protection_def)
    with guarded_call_calls [of e f r args w] show ?thesis
      unfolding PyRequest by (auto simp: view_passed)
  qed
qed (simp_all add: decorated_view_def)


lemma forgery_protection_on:
  "truthy (use_forgery_protection (settings e)) \<Longrightarrow> forgery_protection e r = forgery_check e r"
  by (simp add: forgery_protection_def)

lemma forgery_protection_off:
  "\<not> truthy (use_forgery_protection (settings e)) \<Longrightarrow> forgery_protection e r = (None, [])"
  by (simp add: forgery_protection_def)

lemma forgery_protection_calls:
  "ev \<in> set (snd (forgery_protection e r)) \<Longrightarrow> rank ev < 2"
  using forgery_check_cases [of e r]
  by (cases "truthy (use_forgery_protection (settings e))")
     (auto simp: forgery_protection_on forgery_protection_off)

lemma view_not_allowed:
  "truthy (use_forgery_protection (settings e)) \<Longrightarrow> method r \<notin> set [''GET'', ''POST''] \<Longrightarrow>
   decorated_view e f (PyRequest r) args w =
     \<lparr>outcome = Inr (PyResponse (HttpResponseNotAllowed (method r))),
      calls = [MethodCheck (method r)], world = w\<rparr>"
  by (simp add: view_rejected forgery_protection_on forgery_check_method)

lemma view_missing:
  "truthy (use_forgery_protection (settings e)) \<Longrightarrow> method r \<in> set [''GET'', ''POST''] \<Longrightarrow>
   TWILIO_AUTH_TOKEN e = None \<or> META r ''HTTP_X_TWILIO_SIGNATURE'' = None \<Longrightarrow>
   decorated_view e f (PyRequest r) args w =
     \<lparr>outcome = Inr (PyResponse HttpResponseForbidden),
      calls = [MethodCheck (method r)], world = w\<rparr>"
  by (simp add: view_rejected forgery_protection_on forgery_check_missing)

lemma view_invalid:
  "truthy (use_forgery_protection (settings e)) \<Longrightarrow> method r \<in> set [''GET'', ''POST''] \<Longrightarrow>
   TWILIO_AUTH_TOKEN e = Some t \<Longrightarrow> META r ''HTTP_X_TWILIO_SIGNATURE'' = Some s \<Longrightarrow>
   ps = (if method r = ''POST'' then POST r else GET r) \<Longrightarrow>
   \<not> validate e t (absolute_uri r) ps s \<Longrightarrow>
   decorated_view e f (PyRequest r) args w =
     \<lparr>outcome = Inr (PyResponse HttpResponseForbidden),
      calls = [MethodCheck (method r), Validate (absolute_uri r) ps s], world = w\<rparr>"
  using forgery_check_verify [of r e t s ps]
  by (simp add: view_rejected forgery_protection_on)

lemma view_valid:
  "truthy (use_forgery_protection (settings e)) \<Longrightarrow> method r \<in> set [''GET'', ''POST''] \<Longrightarrow>
   TWILIO_AUTH_TOKEN e = Some t \<Longrightarrow> META r ''HTTP_X_TWILIO_SIGNATURE'' = Some s \<Longrightarrow>
   ps = (if method r = ''POST'' then POST r else GET r) \<Longrightarrow>
   validate e t (absolute_uri r) ps s \<Longrightarrow>
   decorated_view e f (PyRequest r) args w =
     (guarded_call e f r args w)
       \<lparr>calls := [MethodCheck (method r), Validate (absolute_uri r) ps s] @
                 calls (guarded_call e f r args w)\<rparr>"
  using forgery_check_verify [of r e t s ps]
  by (simp add: view_passed forgery_protection_on)

lemma view_unprotected:
  "\<not> truthy (use_forgery_protection (settings e)) \<Longrightarrow>
   decorated_view e f (PyRequest r) args w = guarded_call e f r args w"
  by (simp add: view_passed forgery_protection_off)

lemma forgery_protection_cases:
  "(\<exists>resp. forgery_protection e r = (Some (Inr resp), snd (forgery_protection e r))) \<or>
   forgery_protection e r = (None, snd (forgery_protection e r))"
  using forgery_check_cases [of e r]
  by (cases "truthy (use_forgery_protection (settings e))")
     (auto simp: forgery_protection_on forgery_protection_off)

lemma guarded_call_outcome:
  "HandlerCall \<in> set (calls (guarded_call e f r args w)) \<Longrightarrow>
   outcome (guarded_call e f r args w) =
     Inr (coerce e (fst (f r args (snd (snd (blacklist_check e r w))))))"
  by (auto simp: guarded_call_def blacklist_check_def split_def Let_def split: if_splits)

lemma fold_conj:
  "fold (\<lambda>(x, y) acc. acc \<and> x = y) xs acc = (acc \<and> (\<forall>(x, y) \<in> set xs. x = y))"
  by (induction xs arbitrary: acc) auto

lemma compare_iff: "compare a b = (a = b)"
  by (auto simp: compare_def fold_conj list_eq_iff_zip_eq)

lemma base64_Nil_iff: "base64 bs = [] \<longleftrightarrow> bs = []"
  by (cases bs rule: base64.cases) simp_all

lemma sign_not_Nil: "sign hmac secret url ps \<noteq> []"
  by (cases "hmac secret (message url ps)") (simp add: sign_def base64_Nil_iff)

text \<open>
  Claim C1. For every call of the decorated view, the steps happen in the fixed order
  method check, signature verification, blacklist check, wrapped view, each at most once:
  the ranks of the steps taken increase strictly. With forgery protection on, a blacklist
  check or a call of the wrapped view only ever follows the method check and a call of the
  validator that accepted the signature, these two being the first steps of the call. With
  the blacklist check enabled, a call of the wrapped view is the last step and comes right
  after the blacklist check. The blacklist check is made exactly when the request is not
  rejected by the forgery check and the check is enabled. The wrapped view is called
  exactly when the request is neither rejected by the forgery check (method outside
  \<^verbatim>\<open>GET\<close> and \<^verbatim>\<open>POST\<close>, missing token, missing header, or a signature the validator refuses,
  with forgery protection on) nor denied by the blacklist check (whatever the validator
  says of its signature); and for a rejected or denied request the whole result, the world
  included, is the same for every wrapped view.
\<close>

theorem checks_in_order_handler_guarded:
  fixes e :: "('v, 'o, 'w) env" and f :: "request \<Rightarrow> 'a \<Rightarrow> 'w \<Rightarrow> ('v, 'o) pyval \<times> 'w"
    and r :: request and args :: 'a and w :: 'w
  defines "steps \<equiv> calls (decorated_view e f (PyRequest r) args w)"
    and "ps \<equiv> (if method r = ''POST'' then POST r else GET r)"
    and "rejected \<equiv>
           truthy (use_forgery_protection (settings e)) \<and>
           (method r \<notin> set [''GET'', ''POST''] \<or>
            TWILIO_AUTH_TOKEN e = None \<or> META r ''HTTP_X_TWILIO_SIGNATURE'' = None \<or>
            (\<exists>t s. TWILIO_AUTH_TOKEN e = Some t \<and> META r ''HTTP_X_TWILIO_SIGNATURE'' = Some s \<and>
               \<not> validate e t (absolute_uri r) (if method r = ''POST'' then POST r else GET r) s))"
    and "denied \<equiv>
           truthy (check_blacklist (settings e)) \<and> truthy (fst (get_blacklisted_response e r w))"
  shows "sorted_wrt (\<lambda>a b. rank a < rank b) (calls (decorated_view e f arg args w)) \<and>
         (truthy (use_forgery_protection (settings e)) \<and>
          (BlacklistCheck \<in> set steps \<or> HandlerCall \<in> set steps) \<longrightarrow>
            (\<exists>t s rest. TWILIO_AUTH_TOKEN e = Some t \<and>
               META r ''HTTP_X_TWILIO_SIGNATURE'' = Some s \<and>
               validate e t (absolute_uri r) ps s \<and>
               steps = MethodCheck (method r) # Validate (absolute_uri r) ps s # rest)) \<and>
         (truthy (check_blacklist (settings e)) \<and> HandlerCall \<in> set steps \<longrightarrow>
            (\<exists>before. steps = before @ [BlacklistCheck, HandlerCall])) \<and>
         (BlacklistCheck \<in> set steps) = (\<not> rejected \<and> truthy (check_blacklist (settings e))) \<and>
         (HandlerCall \<in> set steps) = (\<not> rejected \<and> \<not> denied) \<and>
         (rejected \<or> denied \<longrightarrow>
            (\<forall>f'. decorated_view e f' (PyRequest r) args w =
                  decorated_view e f (PyRequest r) args w))"
proof -
  have sorted: "sorted_wrt (\<lambda>a b. rank a < rank b) (calls (decorated_view e f arg args w))"
    by (rule view_calls_sorted)
  have gd: "guarded_call e g r args w =
        \<lparr>outcome = Inr (fst (get_blacklisted_response e r w)), calls = [BlacklistCheck],
         world = snd (get_blacklisted_response e r w)\<rparr>"
    if "denied" for g :: "request \<Rightarrow> 'a \<Rightarrow> 'w \<Rightarrow> ('v, 'o) pyval \<times> 'w"
    using that by (simp add: denied_def guarded_call_denied)
  have gf:
    "(truthy (check_blacklist (settings e)) \<and> HandlerCall \<in> set (calls (guarded_call e f r args w)) \<longrightarrow>
        calls (guarded_call e f r args w) = [BlacklistCheck, HandlerCall]) \<and>
     (BlacklistCheck \<in> set (calls (guarded_call e f r args w))) = truthy (check_blacklist (settings e)) \<and>
     (HandlerCall \<in> set (calls (guarded_call e f r args w))) = (\<not> denied)"
  proof (cases "truthy (check_blacklist (settings e))")
    case False
    then show ?thesis by (simp add: guarded_call_unchecked denied_def)
  next
    case True
    then show ?thesis
      by (cases "truthy (fst (get_blacklisted_response e r w))")
         (simp_all add: guarded_call_denied guarded_call_allowed denied_def)
  qed
  have rest: "(truthy (use_forgery_protection (settings e)) \<and>
          (BlacklistCheck \<in> set steps \<or> HandlerCall \<in> set steps) \<longrightarrow>
            (\<exists>t s rest. TWILIO_AUTH_TOKEN e = Some t \<and>
               META r ''HTTP_X_TWILIO_SIGNATURE'' = Some s \<and>
               validate e t (absolute_uri r) ps s \<and>
               steps = MethodCheck (method r) # Validate (absolute_uri r) ps s # rest)) \<and>
         (truthy (check_blacklist (settings e)) \<and> HandlerCall \<in> set steps \<longrightarrow>
            (\<exists>before. steps = before @ [BlacklistCheck, HandlerCall])) \<and>
         (BlacklistCheck \<in> set steps) = (\<not> rejected \<and> truthy (check_blacklist (settings e))) \<and>
         (HandlerCall \<in> set steps) = (\<not> rejected \<and> \<not> denied) \<and>
         (rejected \<or> denied \<longrightarrow>
            (\<forall>f'. decorated_view e f' (PyRequest r) args w =
                  decorated_view e f (PyRequest r) args w))"
  proof (cases "truthy (use_forgery_protection (settings e))")
    case off: False
    then have nr: "\<not> rejected" by (simp add: rejected_def)
    from off nr gf show ?thesis
      by (auto simp: steps_def view_unprotected gd)
  next
    case on: True
    show ?thesis
    proof (cases "method r \<in> set [''GET'', ''POST'']")
      case False
      with on have "rejected" by (simp add: rejected_def)
      with on False show ?thesis
        by (simp add: steps_def view_not_allowed)
    next
      case meth: True
      show ?thesis
      proof (cases "TWILIO_AUTH_TOKEN e = None \<or> META r ''HTTP_X_TWILIO_SIGNATURE'' = None")
        case True
        with on have "rejected" by (auto simp: rejected_def)
        with on meth True show ?thesis
          by (simp add: steps_def view_missing)
      next
        case False
        then obtain t s where ts: "TWILIO_AUTH_TOKEN e = Some t"
          "META r ''HTTP_X_TWILIO_SIGNATURE'' = Some s"
          by auto
        show ?thesis
        proof (cases "validate e t (absolute_uri r) ps s")
          case bad: False
          with on ts have "rejected" by (auto simp: rejected_def ps_def)
          with on meth ts bad show ?thesis
            by (simp add: steps_def view_invalid [OF on meth ts ps_def [THEN meta_eq_to_obj_eq]])
        next
          case good: True
          with on meth ts have nr: "\<not> rejected" by (auto simp: rejected_def ps_def)
          have v: "decorated_view e g (PyRequest r) args w =
             (guarded_call e g r args w)
               \<lparr>calls := [MethodCheck (method r), Validate (absolute_uri r) ps s] @
                         calls (guarded_call e g r args w)\<rparr>"
            for g :: "request \<Rightarrow> 'a \<Rightarrow> 'w \<Rightarrow> ('v, 'o) pyval \<times> 'w"
            by (rule view_valid [OF on meth ts ps_def [THEN meta_eq_to_obj_eq] good])
          from on ts good nr gf show ?thesis
            by (auto simp: steps_def v gd)
        qed
      qed
    qed
  qed
  from sorted rest show ?thesis by blast
qed


theorem checks_in_order_handler_guarded_witness:
  "truthy (use_forgery_protection (settings ex_env)) \<and>
   (\<exists>rest. calls (decorated_view ex_env ex_view (PyRequest ex_request) () 0) =
      MethodCheck ''POST'' #
      Validate ''https://example.com/sms'' [(''From'', ''+15551234567''), (''Body'', ''hi'')] ''valid'' #
      rest) \<and>
   (\<exists>before. calls (decorated_view ex_env ex_view (PyRequest ex_request) () 0) =
      before @ [BlacklistCheck, HandlerCall]) \<and>
   truthy (fst (get_blacklisted_response ex_env ex_denied_request 0)) \<and>
   validate ex_env ''abc123'' (absolute_uri ex_denied_request) (POST ex_denied_request) ''valid'' \<and>
   HandlerCall \<notin> set (calls (decorated_view ex_env ex_view (PyRequest ex_denied_request) () 0)) \<and>
   BlacklistCheck \<in> set (calls (decorated_view ex_env ex_view (PyRequest ex_denied_request) () 0))"
proof -
  have c: "truthy (check_blacklist (settings ex_env))"
    "truthy (use_forgery_protection (settings ex_env))"
    by (simp_all add: ex_defs check_blacklist_def use_forgery_protection_def)
  have d: "truthy (fst (get_blacklisted_response ex_env ex_denied_request 0))"
    "\<not> truthy (fst (get_blacklisted_response ex_env ex_request 0))"
    by (simp_all add: ex_defs)
  have hb: "HandlerCall \<notin> set (calls (decorated_view ex_env ex_view (PyRequest ex_denied_request) () 0)) \<and>
    BlacklistCheck \<in> set (calls (decorated_view ex_env ex_view (PyRequest ex_denied_request) () 0))"
    using checks_in_order_handler_guarded [of ex_env ex_view "PyRequest ex_denied_request" "()" 0 ex_denied_request] c d
    by (simp add: ex_request_def ex_denied_request_def ex_env_def)
  have ha: "HandlerCall \<in> set (calls (decorated_view ex_env ex_view (PyRequest ex_request) () 0))"
    using checks_in_order_handler_guarded [of ex_env ex_view "PyRequest ex_request" "()" 0 ex_request] c d
    by (simp add: ex_request_def ex_env_def)
  have hc: "(\<exists>rest. calls (decorated_view ex_env ex_view (PyRequest ex_request) () 0) =
      MethodCheck ''POST'' #
      Validate ''https://example.com/sms'' [(''From'', ''+15551234567''), (''Body'', ''hi'')] ''valid'' #
      rest) \<and>
   (\<exists>before. calls (decorated_view ex_env ex_view (PyRequest ex_request) () 0) =
      before @ [BlacklistCheck, HandlerCall])"
    using checks_in_order_handler_guarded [of ex_env ex_view "PyRequest ex_request" "()" 0 ex_request] c ha
    by (simp add: ex_request_def ex_env_def)
  from c d hb hc show ?thesis
    by (simp add: ex_defs)
qed

text \<open>
  Claim C2 as stated fails: with forgery protection on, a \<^verbatim>\<open>PUT\<close> request without the
  signature header is answered at line 106 with 405, before the header is looked at.
\<close>

theorem missing_credentials_not_always_403:
  "truthy (use_forgery_protection (settings ex_env)) \<and>
   META (ex_request\<lparr>method := ''PUT'', META := Map.empty\<rparr>) ''HTTP_X_TWILIO_SIGNATURE'' = None \<and>
   outcome (decorated_view ex_env ex_view
      (PyRequest (ex_request\<lparr>method := ''PUT'', META := Map.empty\<rparr>)) () 0) =
     Inr (PyResponse (HttpResponseNotAllowed ''PUT'')) \<and>
   status_code (HttpResponseNotAllowed ''PUT'') \<noteq> 403"
  by (simp add: ex_defs use_forgery_protection_def decorated_view_def forgery_protection_def
      forgery_check_def)

text \<open>
  Claim C2, amended. With forgery protection on and a request whose method is \<^verbatim>\<open>GET\<close> or
  \<^verbatim>\<open>POST\<close>, if the signature header is absent or the token is unavailable, the view returns
  \<^verbatim>\<open>HttpResponseForbidden()\<close> (status 403): no exception leaves the view, the method check is
  the only step taken (neither the validator, nor the blacklist check, nor the wrapped view
  is called), and the world is unchanged.
\<close>

theorem missing_credentials_forbidden:
  assumes "truthy (use_forgery_protection (settings e))"
    and "method r \<in> set [''GET'', ''POST'']"
    and "TWILIO_AUTH_TOKEN e = None \<or> META r ''HTTP_X_TWILIO_SIGNATURE'' = None"
  shows "decorated_view e f (PyRequest r) args w =
           \<lparr>outcome = Inr (PyResponse HttpResponseForbidden),
            calls = [MethodCheck (method r)], world = w\<rparr> \<and>
         status_code HttpResponseForbidden = 403"
  using assms by (simp add: view_missing)

theorem missing_credentials_forbidden_witness:
  "truthy (use_forgery_protection (settings ex_env)) \<and>
   method (ex_request\<lparr>META := Map.empty\<rparr>) \<in> set [''GET'', ''POST''] \<and>
   META (ex_request\<lparr>META := Map.empty\<rparr>) ''HTTP_X_TWILIO_SIGNATURE'' = None \<and>
   decorated_view ex_env ex_view (PyRequest (ex_request\<lparr>META := Map.empty\<rparr>)) () 0 =
     \<lparr>outcome = Inr (PyResponse HttpResponseForbidden),
      calls = [MethodCheck ''POST''], world = 0\<rparr>"
  using missing_credentials_forbidden
    [of ex_env "ex_request\<lparr>META := Map.empty\<rparr>" ex_view "()" 0]
  by (simp add: ex_defs use_forgery_protection_def)

text \<open>
  Claim C3. With forgery protection on, the method check is the first step of every call,
  and a request whose method is neither \<^verbatim>\<open>GET\<close> nor \<^verbatim>\<open>POST\<close> is answered with
  \<^verbatim>\<open>HttpResponseNotAllowed\<close> (status 405) whatever its signature, its header and the
  validator are: the method check is then the only step taken.
\<close>

theorem unsupported_method_not_allowed:
  assumes "truthy (use_forgery_protection (settings e))"
  shows "(\<exists>rest. calls (decorated_view e f (PyRequest r) args w) = MethodCheck (method r) # rest) \<and>
         (method r \<notin> set [''GET'', ''POST''] \<longrightarrow>
            decorated_view e f (PyRequest r) args w =
              \<lparr>outcome = Inr (PyResponse (HttpResponseNotAllowed (method r))),
               calls = [MethodCheck (method r)], world = w\<rparr> \<and>
            status_code (HttpResponseNotAllowed (method r)) = 405)"
proof (intro conjI impI)
  show "\<exists>rest. calls (decorated_view e f (PyRequest r) args w) = MethodCheck (method r) # rest"
    using forgery_check_cases [of e r] assms
    by (auto simp: view_rejected view_passed forgery_protection_on)
qed (simp_all add: view_not_allowed [OF assms])

theorem unsupported_method_not_allowed_witness:
  "truthy (use_forgery_protection (settings ex_env)) \<and>
   method (ex_request\<lparr>method := ''PUT''\<rparr>) \<notin> set [''GET'', ''POST''] \<and>
   validate ex_env ''abc123'' ''https://example.com/sms'' (POST ex_request) ''valid'' \<and>
   decorated_view ex_env ex_view (PyRequest (ex_request\<lparr>method := ''PUT''\<rparr>)) () 0 =
     \<lparr>outcome = Inr (PyResponse (HttpResponseNotAllowed ''PUT'')),
      calls = [MethodCheck ''PUT''], world = 0\<rparr>"
  using unsupported_method_not_allowed
    [of ex_env ex_view "ex_request\<lparr>method := ''PUT''\<rparr>" "()" 0]
  by (simp add: ex_defs use_forgery_protection_def)

text \<open>
  Claim C4. \<^verbatim>\<open>use_forgery_protection\<close> is the value of
  \<^verbatim>\<open>DJANGO_TWILIO_FORGERY_PROTECTION\<close> when that setting is set, and \<^verbatim>\<open>not settings.DEBUG\<close>
  when it is not; the forgery check is entered (the method check is among the steps of the
  call) exactly when that value is true.
\<close>

theorem enforcement_setting:
  "(\<forall>v. DJANGO_TWILIO_FORGERY_PROTECTION (settings e) = Some v \<longrightarrow>
        use_forgery_protection (settings e) = v) \<and>
   (\<forall>b. DJANGO_TWILIO_FORGERY_PROTECTION (settings e) = Some (PyBool b) \<longrightarrow>
        truthy (use_forgery_protection (settings e)) = b) \<and>
   (DJANGO_TWILIO_FORGERY_PROTECTION (settings e) = None \<longrightarrow>
        use_forgery_protection (settings e) = PyBool (\<not> truthy (DEBUG (settings e)))) \<and>
   (\<forall>d. DJANGO_TWILIO_FORGERY_PROTECTION (settings e) = None \<and> DEBUG (settings e) = PyBool d \<longrightarrow>
        truthy (use_forgery_protection (settings e)) = (\<not> d)) \<and>
   (MethodCheck (method r) \<in> set (calls (decorated_view e f (PyRequest r) args w))) =
     truthy (use_forgery_protection (settings e))"
proof -
  have "(MethodCheck (method r) \<in> set (calls (decorated_view e f (PyRequest r) args w))) =
     truthy (use_forgery_protection (settings e))"
  proof (cases "truthy (use_forgery_protection (settings e))")
    case True
    with forgery_check_cases [of e r] show ?thesis
      by (auto simp: view_rejected view_passed forgery_protection_on)
  next
    case False
    with guarded_call_calls [of e f r args w] show ?thesis
      by (auto simp: view_unprotected)
  qed
  then show ?thesis by (simp add: use_forgery_protection_def)
qed

theorem enforcement_setting_witness:
  "DJANGO_TWILIO_FORGERY_PROTECTION (settings ex_debug_env) = None \<and>
   DEBUG (settings ex_debug_env) = PyBool True \<and>
   \<not> truthy (use_forgery_protection (settings ex_debug_env)) \<and>
   MethodCheck ''POST'' \<notin> set (calls (decorated_view ex_debug_env ex_view (PyRequest ex_request) () 0)) \<and>
   DJANGO_TWILIO_FORGERY_PROTECTION
     (settings (ex_debug_env\<lparr>settings := ex_settings\<lparr>DEBUG := PyBool True,
        DJANGO_TWILIO_FORGERY_PROTECTION := Some (PyBool True)\<rparr>\<rparr>)) = Some (PyBool True) \<and>
   truthy (use_forgery_protection
     (settings (ex_debug_env\<lparr>settings := ex_settings\<lparr>DEBUG := PyBool True,
        DJANGO_TWILIO_FORGERY_PROTECTION := Some (PyBool True)\<rparr>\<rparr>)))"
  using enforcement_setting [of ex_debug_env ex_request ex_view "()" 0]
    enforcement_setting [of "ex_debug_env\<lparr>settings := ex_settings\<lparr>DEBUG := PyBool True,
        DJANGO_TWILIO_FORGERY_PROTECTION := Some (PyBool True)\<rparr>\<rparr>" ex_request ex_view "()" 0]
  by (simp add: ex_defs)

text \<open>
  Claim C5 as stated fails: with forgery protection off, a request from a blacklisted caller
  is answered by the blacklist check and never reaches the wrapped view.
\<close>

theorem unprotected_request_may_stop_at_blacklist:
  "\<not> truthy (use_forgery_protection (settings ex_debug_env)) \<and>
   HandlerCall \<notin> set (calls (decorated_view ex_debug_env ex_view
      (PyRequest (ex_denied_request\<lparr>method := ''PUT'', META := Map.empty\<rparr>)) () 0))"
  by (simp add: ex_defs use_forgery_protection_def check_blacklist_def decorated_view_def
      forgery_protection_def guarded_call_def blacklist_check_def)

text \<open>
  Claim C5, amended. With forgery protection off, every request, with any method and with
  or without a signature, skips the method check and the signature verification: the call
  is the blacklist check followed by the wrapped view, and no step of the forgery check is
  taken. The blacklist check is made whenever it is enabled, and the wrapped view is called
  unless the blacklist check is enabled and returns a response.
\<close>

theorem unprotected_request_skips_forgery_check:
  assumes "\<not> truthy (use_forgery_protection (settings e))"
  shows "decorated_view e f (PyRequest r) args w = guarded_call e f r args w \<and>
         (\<forall>ev \<in> set (calls (decorated_view e f (PyRequest r) args w)). 2 \<le> rank ev) \<and>
         (truthy (check_blacklist (settings e)) \<longrightarrow>
            BlacklistCheck \<in> set (calls (decorated_view e f (PyRequest r) args w))) \<and>
         (HandlerCall \<in> set (calls (decorated_view e f (PyRequest r) args w))) =
           (\<not> (truthy (check_blacklist (settings e)) \<and>
               truthy (fst (get_blacklisted_response e r w))))"
proof -
  have eq: "decorated_view e f (PyRequest r) args w = guarded_call e f r args w"
    using assms by (rule view_unprotected)
  show ?thesis
  proof (cases "truthy (check_blacklist (settings e))")
    case False
    then show ?thesis by (simp add: eq guarded_call_unchecked)
  next
    case True
    then show ?thesis
      by (cases "truthy (fst (get_blacklisted_response e r w))")
         (simp_all add: eq guarded_call_denied guarded_call_allowed)
  qed
qed

theorem unprotected_request_skips_forgery_check_witness:
  "\<not> truthy (use_forgery_protection (settings ex_debug_env)) \<and>
   truthy (check_blacklist (settings ex_debug_env)) \<and>
   \<not> truthy (fst (get_blacklisted_response ex_debug_env
        (ex_request\<lparr>method := ''PUT'', META := Map.empty\<rparr>) 0)) \<and>
   BlacklistCheck \<in> set (calls (decorated_view ex_debug_env ex_view
      (PyRequest (ex_request\<lparr>method := ''PUT'', META := Map.empty\<rparr>)) () 0)) \<and>
   HandlerCall \<in> set (calls (decorated_view ex_debug_env ex_view
      (PyRequest (ex_request\<lparr>method := ''PUT'', META := Map.empty\<rparr>)) () 0))"
  using unprotected_request_skips_forgery_check
    [of ex_debug_env ex_view "ex_request\<lparr>method := ''PUT'', META := Map.empty\<rparr>" "()" 0,
     THEN conjunct2]
  by (simp add: ex_defs use_forgery_protection_def check_blacklist_def)

text \<open>
  Claim C6. With forgery protection on, the validator is called at most once, and only with
  the URL of the request, the signature header and the parameter set of the request's own
  method (\<^verbatim>\<open>request.POST\<close> for \<^verbatim>\<open>POST\<close>, \<^verbatim>\<open>request.GET\<close> for \<^verbatim>\<open>GET\<close>); it is called so whenever the
  method is one of the two, the token is there and the header is present; and when it
  returns false the view returns \<^verbatim>\<open>HttpResponseForbidden()\<close> (status 403) and stops there.
\<close>

theorem validator_gets_the_methods_parameters:
  assumes "truthy (use_forgery_protection (settings e))"
  shows "(\<forall>u p s. Validate u p s \<in> set (calls (decorated_view e f (PyRequest r) args w)) \<longrightarrow>
            u = absolute_uri r \<and> META r ''HTTP_X_TWILIO_SIGNATURE'' = Some s \<and>
            (method r = ''POST'' \<and> p = POST r \<or> method r = ''GET'' \<and> p = GET r)) \<and>
         length (filter (\<lambda>ev. rank ev = 1) (calls (decorated_view e f (PyRequest r) args w))) \<le> 1 \<and>
         (\<forall>t s. method r \<in> set [''GET'', ''POST''] \<and> TWILIO_AUTH_TOKEN e = Some t \<and>
                 META r ''HTTP_X_TWILIO_SIGNATURE'' = Some s \<longrightarrow>
            Validate (absolute_uri r) (if method r = ''POST'' then POST r else GET r) s
              \<in> set (calls (decorated_view e f (PyRequest r) args w)) \<and>
            (\<not> validate e t (absolute_uri r) (if method r = ''POST'' then POST r else GET r) s \<longrightarrow>
               decorated_view e f (PyRequest r) args w =
                 \<lparr>outcome = Inr (PyResponse HttpResponseForbidden),
                  calls = [MethodCheck (method r),
                           Validate (absolute_uri r)
                             (if method r = ''POST'' then POST r else GET r) s],
                  world = w\<rparr> \<and>
               status_code HttpResponseForbidden = 403))"
proof (cases "method r \<in> set [''GET'', ''POST'']")
  case False
  then show ?thesis by (simp add: view_not_allowed [OF assms])
next
  case meth: True
  show ?thesis
  proof (cases "TWILIO_AUTH_TOKEN e = None \<or> META r ''HTTP_X_TWILIO_SIGNATURE'' = None")
    case True
    then show ?thesis using meth by (auto simp: view_missing [OF assms meth])
  next
    case False
    then obtain t s where ts: "TWILIO_AUTH_TOKEN e = Some t"
      "META r ''HTTP_X_TWILIO_SIGNATURE'' = Some s"
      by auto
    show ?thesis
    proof (cases "validate e t (absolute_uri r) (if method r = ''POST'' then POST r else GET r) s")
      case True
      from view_valid [OF assms meth ts refl True, of f args w]
        guarded_call_calls [of e f r args w] meth ts True
      show ?thesis by auto
    next
      case False
      from view_invalid [OF assms meth ts refl False, of f args w] meth ts False
      show ?thesis by auto
    qed
  qed
qed

theorem validator_gets_the_methods_parameters_witness:
  "truthy (use_forgery_protection (settings ex_env)) \<and>
   method (ex_request\<lparr>META := [''HTTP_X_TWILIO_SIGNATURE'' \<mapsto> ''forged'']\<rparr>) \<in> set [''GET'', ''POST''] \<and>
   \<not> validate ex_env ''abc123'' ''https://example.com/sms'' (POST ex_request) ''forged'' \<and>
   decorated_view ex_env ex_view
     (PyRequest (ex_request\<lparr>META := [''HTTP_X_TWILIO_SIGNATURE'' \<mapsto> ''forged'']\<rparr>)) () 0 =
     \<lparr>outcome = Inr (PyResponse HttpResponseForbidden),
      calls = [MethodCheck ''POST'',
               Validate ''https://example.com/sms''
                 [(''From'', ''+15551234567''), (''Body'', ''hi'')] ''forged''],
      world = 0\<rparr>"
  using validator_gets_the_methods_parameters
    [of ex_env ex_view "ex_request\<lparr>META := [''HTTP_X_TWILIO_SIGNATURE'' \<mapsto> ''forged'']\<rparr>" "()" 0]
  by (simp add: ex_defs use_forgery_protection_def)

text \<open>
  Claim C7. What the view returns once the wrapped view has been called is \<open>coerce\<close> of the
  value the wrapped view returned: a string or a byte sequence becomes an
  \<^verbatim>\<open>HttpResponse\<close> (status 200) with that very content and the content type
  \<^verbatim>\<open>application/xml\<close>; a \<^verbatim>\<open>Verb\<close> becomes the same kind of response with \<^verbatim>\<open>str\<close> of the verb as
  content; any other value is returned as it is.
\<close>

theorem handler_result_coerced:
  "coerce e (PyStr s) = PyResponse (HttpResponse (Text s) ''application/xml'') \<and>
   coerce e (PyBytes bs) = PyResponse (HttpResponse (Bytes bs) ''application/xml'') \<and>
   coerce e (PyVerb v) = PyResponse (HttpResponse (Text (str_verb e v)) ''application/xml'') \<and>
   status_code (HttpResponse c ''application/xml'') = 200 \<and>
   ((\<forall>s'. x \<noteq> PyStr s') \<and> (\<forall>bs'. x \<noteq> PyBytes bs') \<and> (\<forall>v'. x \<noteq> PyVerb v') \<longrightarrow>
      coerce e x = x) \<and>
   (HandlerCall \<in> set (calls (decorated_view e f (PyRequest r) args w)) \<longrightarrow>
      outcome (decorated_view e f (PyRequest r) args w) =
        Inr (coerce e (fst (f r args (snd (snd (blacklist_check e r w)))))))"
proof -
  have other: "(\<forall>s'. x \<noteq> PyStr s') \<and> (\<forall>bs'. x \<noteq> PyBytes bs') \<and> (\<forall>v'. x \<noteq> PyVerb v') \<longrightarrow>
      coerce e x = x"
    by (cases x) simp_all
  have reached: "HandlerCall \<in> set (calls (decorated_view e f (PyRequest r) args w)) \<longrightarrow>
      outcome (decorated_view e f (PyRequest r) args w) =
        Inr (coerce e (fst (f r args (snd (snd (blacklist_check e r w))))))"
  proof
    assume h: "HandlerCall \<in> set (calls (decorated_view e f (PyRequest r) args w))"
    from forgery_protection_cases [of e r]
    show "outcome (decorated_view e f (PyRequest r) args w) =
        Inr (coerce e (fst (f r args (snd (snd (blacklist_check e r w))))))"
    proof
      assume "\<exists>resp. forgery_protection e r = (Some (Inr resp), snd (forgery_protection e r))"
      then obtain resp where
        "forgery_protection e r = (Some (Inr resp), snd (forgery_protection e r))" ..
      from h view_rejected [OF this, of f args w] forgery_protection_calls [of HandlerCall e r]
      show ?thesis by simp
    next
      assume p: "forgery_protection e r = (None, snd (forgery_protection e r))"
      from h forgery_protection_calls [of HandlerCall e r]
      have "HandlerCall \<in> set (calls (guarded_call e f r args w))"
        by (auto simp: view_passed [OF p])
      then show ?thesis
        by (simp add: view_passed [OF p] guarded_call_outcome)
    qed
  qed
  from other reached show ?thesis by simp
qed

theorem handler_result_coerced_witness:
  "HandlerCall \<in> set (calls (decorated_view ex_env ex_view (PyRequest ex_request) () 0)) \<and>
   outcome (decorated_view ex_env ex_view (PyRequest ex_request) () 0) =
     Inr (PyResponse (HttpResponse (Text ''<Response/>'') ''application/xml'')) \<and>
   coerce ex_env (PyObject 7) = PyObject 7 \<and>
   coerce ex_env PyNone = PyNone"
proof -
  have reached: "HandlerCall \<in> set (calls (decorated_view ex_env ex_view (PyRequest ex_request) () 0))"
    by (simp add: ex_defs decorated_view_def forgery_protection_def forgery_check_def
        assemble_def RequestValidator_def guarded_call_def blacklist_check_def
        use_forgery_protection_def check_blacklist_def)
  have bl: "snd (snd (blacklist_check ex_env ex_request 0)) = 0"
    by (simp add: ex_defs blacklist_check_def check_blacklist_def)
  from reached bl
    handler_result_coerced [of ex_env "''<Response/>''" "[]" "''''" "Text ''''" "PyObject 7"
      ex_view ex_request "()" 0]
    handler_result_coerced [of ex_env "''<Response/>''" "[]" "''''" "Text ''''" PyNone
      ex_view ex_request "()" 0]
  show ?thesis by (simp add: ex_view_def)
qed

text \<open>
  Claim C8 as stated fails: the blacklist check is enabled and yet not made for a request
  that the forgery check has already answered (here a \<^verbatim>\<open>PUT\<close> request, with 405).
\<close>

theorem blacklist_enabled_but_not_checked:
  "truthy (check_blacklist (settings ex_env)) \<and>
   truthy (use_forgery_protection (settings ex_env)) \<and>
   BlacklistCheck \<notin> set (calls (decorated_view ex_env ex_view
      (PyRequest (ex_denied_request\<lparr>method := ''PUT''\<rparr>)) () 0))"
  by (simp add: ex_defs use_forgery_protection_def check_blacklist_def decorated_view_def
      forgery_protection_def forgery_check_def)

text \<open>
  Claim C8, amended. For a request that the forgery check does not answer (forgery
  protection is off, or it is on and the validator accepts the signature), the blacklist
  check is made if and only if \<^verbatim>\<open>DJANGO_TWILIO_BLACKLIST_CHECK\<close> is true, its default being
  \<^verbatim>\<open>True\<close>; and when \<^verbatim>\<open>get_blacklisted_response\<close> then returns a response object, the view
  returns exactly that object and stops: the wrapped view is not called, and the world is
  the one the blacklist query left.
\<close>

theorem blacklist_check_after_forgery_check:
  assumes "\<not> truthy (use_forgery_protection (settings e)) \<or>
           (\<exists>t s. method r \<in> set [''GET'', ''POST''] \<and> TWILIO_AUTH_TOKEN e = Some t \<and>
              META r ''HTTP_X_TWILIO_SIGNATURE'' = Some s \<and>
              validate e t (absolute_uri r) (if method r = ''POST'' then POST r else GET r) s)"
  shows "(BlacklistCheck \<in> set (calls (decorated_view e f (PyRequest r) args w))) =
           truthy (check_blacklist (settings e)) \<and>
         (\<forall>v. DJANGO_TWILIO_BLACKLIST_CHECK (settings e) = Some v \<longrightarrow>
            check_blacklist (settings e) = v) \<and>
         (DJANGO_TWILIO_BLACKLIST_CHECK (settings e) = None \<longrightarrow>
            check_blacklist (settings e) = PyBool True) \<and>
         (truthy (check_blacklist (settings e)) \<and>
          ((\<exists>resp. fst (get_blacklisted_response e r w) = PyResponse resp) \<or>
           (\<exists>x. fst (get_blacklisted_response e r w) = PyObject x)) \<longrightarrow>
            outcome (decorated_view e f (PyRequest r) args w) =
              Inr (fst (get_blacklisted_response e r w)) \<and>
            HandlerCall \<notin> set (calls (decorated_view e f (PyRequest r) args w)) \<and>
            world (decorated_view e f (PyRequest r) args w) =
              snd (get_blacklisted_response e r w))"
proof -
  obtain log1 where v: "decorated_view e f (PyRequest r) args w =
      (guarded_call e f r args w)\<lparr>calls := log1 @ calls (guarded_call e f r args w)\<rparr>"
    and l: "log1 = [] \<or> (\<exists>u p s. log1 = [MethodCheck (method r), Validate u p s])"
  proof (cases "truthy (use_forgery_protection (settings e))")
    case False
    then have "decorated_view e f (PyRequest r) args w =
      (guarded_call e f r args w)\<lparr>calls := [] @ calls (guarded_call e f r args w)\<rparr>"
      by (simp add: view_unprotected)
    then show ?thesis using that by blast
  next
    case True
    with assms obtain t s where ts: "method r \<in> set [''GET'', ''POST'']"
      "TWILIO_AUTH_TOKEN e = Some t" "META r ''HTTP_X_TWILIO_SIGNATURE'' = Some s"
      "validate e t (absolute_uri r) (if method r = ''POST'' then POST r else GET r) s"
      by blast
    from view_valid [OF True ts(1) ts(2) ts(3) refl ts(4), of f args w]
    show ?thesis using that by blast
  qed
  have settings_part: "(\<forall>v. DJANGO_TWILIO_BLACKLIST_CHECK (settings e) = Some v \<longrightarrow>
            check_blacklist (settings e) = v) \<and>
         (DJANGO_TWILIO_BLACKLIST_CHECK (settings e) = None \<longrightarrow>
            check_blacklist (settings e) = PyBool True)"
    by (simp add: check_blacklist_def)
  show ?thesis
  proof (cases "truthy (check_blacklist (settings e))")
    case False
    with l settings_part show ?thesis
      by (auto simp: v guarded_call_unchecked)
  next
    case True
    show ?thesis
    proof (cases "truthy (fst (get_blacklisted_response e r w))")
      case True
      with \<open>truthy (check_blacklist (settings e))\<close> l settings_part show ?thesis
        by (auto simp: v guarded_call_denied)
    next
      case False
      with \<open>truthy (check_blacklist (settings e))\<close> l settings_part show ?thesis
        by (auto simp: v guarded_call_allowed)
    qed
  qed
qed

theorem blacklist_check_after_forgery_check_witness:
  "truthy (use_forgery_protection (settings ex_env)) \<and>
   validate ex_env ''abc123'' (absolute_uri ex_denied_request) (POST ex_denied_request) ''valid'' \<and>
   DJANGO_TWILIO_BLACKLIST_CHECK (settings ex_env) = None \<and>
   fst (get_blacklisted_response ex_env ex_denied_request 0) = ex_reject \<and>
   BlacklistCheck \<in> set (calls (decorated_view ex_env ex_view (PyRequest ex_denied_request) () 0)) \<and>
   outcome (decorated_view ex_env ex_view (PyRequest ex_denied_request) () 0) = Inr ex_reject \<and>
   HandlerCall \<notin> set (calls (decorated_view ex_env ex_view (PyRequest ex_denied_request) () 0))"
proof -
  have pass: "\<not> truthy (use_forgery_protection (settings ex_env)) \<or>
           (\<exists>t s. method ex_denied_request \<in> set [''GET'', ''POST''] \<and>
              TWILIO_AUTH_TOKEN ex_env = Some t \<and>
              META ex_denied_request ''HTTP_X_TWILIO_SIGNATURE'' = Some s \<and>
              validate ex_env t (absolute_uri ex_denied_request)
                (if method ex_denied_request = ''POST'' then POST ex_denied_request
                 else GET ex_denied_request) s)"
    by (simp add: ex_defs)
  have denied: "fst (get_blacklisted_response ex_env ex_denied_request 0) = ex_reject"
    by (simp add: ex_env_def ex_denied_request_def ex_request_def)
  from blacklist_check_after_forgery_check [OF pass, of ex_view "()" 0] denied
  show ?thesis
    by (simp add: ex_defs use_forgery_protection_def)
qed

text \<open>
  Claim C9. For every secret of the verifier's contract (a non-empty one), every URL and
  every parameter set, the verifier accepts the signature computed by the signing
  algorithm, refuses every signature that differs from it in one byte, and accepts no other
  signature at all, the empty one included; the computed signature is the base64 encoding
  of the keyed hash, under the secret, of the URL followed by the names and values of the
  parameters sorted by name.
\<close>

theorem computed_signature_verifies:
  assumes "secret \<noteq> []"
  shows "verifier hmac secret url ps (sign hmac secret url ps) \<and>
         (\<forall>i c. i < length (sign hmac secret url ps) \<and> c \<noteq> sign hmac secret url ps ! i \<longrightarrow>
            \<not> verifier hmac secret url ps ((sign hmac secret url ps)[i := c])) \<and>
         (\<forall>signature. verifier hmac secret url ps signature \<longrightarrow>
            signature = sign hmac secret url ps) \<and>
         \<not> verifier hmac secret url ps [] \<and>
         sign hmac secret url ps =
           base64 (digest_bytes (hmac secret
             (url @ concat (map (\<lambda>(k, v). k @ v) (sort_key fst ps)))))"
proof (intro conjI allI impI)
  show "verifier hmac secret url ps (sign hmac secret url ps)"
    using assms by (simp add: verifier_def compare_iff)
next
  fix i c
  assume ic: "i < length (sign hmac secret url ps) \<and> c \<noteq> sign hmac secret url ps ! i"
  then have "(sign hmac secret url ps)[i := c] ! i \<noteq> sign hmac secret url ps ! i"
    by simp
  then have "(sign hmac secret url ps)[i := c] \<noteq> sign hmac secret url ps"
    by metis
  then show "\<not> verifier hmac secret url ps ((sign hmac secret url ps)[i := c])"
    by (auto simp: verifier_def compare_iff)
next
  fix signature
  assume "verifier hmac secret url ps signature"
  then show "signature = sign hmac secret url ps"
    by (auto simp: verifier_def compare_iff split: if_splits)
next
  show "\<not> verifier hmac secret url ps []"
    using sign_not_Nil [of hmac secret url ps] by (simp add: verifier_def compare_iff)
next
  show "sign hmac secret url ps =
           base64 (digest_bytes (hmac secret
             (url @ concat (map (\<lambda>(k, v). k @ v) (sort_key fst ps)))))"
    by (simp add: sign_def message_def serialize_def)
qed

theorem computed_signature_verifies_witness:
  "''abc123'' \<noteq> [] \<and>
   sign ex_hmac ''abc123'' ''https://example.com/sms''
     [(''From'', ''+15551234567''), (''Body'', ''hi'')] = ''Bi03'' \<and>
   verifier ex_hmac ''abc123'' ''https://example.com/sms''
     [(''From'', ''+15551234567''), (''Body'', ''hi'')] ''Bi03'' \<and>
   \<not> verifier ex_hmac ''abc123'' ''https://example.com/sms''
     [(''From'', ''+15551234567''), (''Body'', ''hi'')] ''Bi04'' \<and>
   \<not> verifier ex_hmac ''abc123'' ''https://example.com/sms''
     [(''From'', ''+15551234567''), (''Body'', ''hi'')] []"
proof -
  have s: "sign ex_hmac ''abc123'' ''https://example.com/sms''
     [(''From'', ''+15551234567''), (''Body'', ''hi'')] = ''Bi03''"
    by code_simp
  have ne: "''abc123'' \<noteq> []" by simp
  note t = computed_signature_verifies [OF ne, of ex_hmac "''https://example.com/sms''"
      "[(''From'', ''+15551234567''), (''Body'', ''hi'')]", unfolded s]
  have m: "\<not> verifier ex_hmac ''abc123'' ''https://example.com/sms''
         [(''From'', ''+15551234567''), (''Body'', ''hi'')] (''Bi03''[3 := CHR ''4''])"
    using t [THEN conjunct2, THEN conjunct1, rule_format, of 3 "CHR ''4''"] by simp
  from t [THEN conjunct1] m t [THEN conjunct2, THEN conjunct2, THEN conjunct2, THEN conjunct1] s
  show ?thesis by simp
qed

text \<open>
  Claim C10. When the first argument of the decorated view is not an \<^verbatim>\<open>HttpRequest\<close>, the
  assertion of line 93 fails: the call ends with \<^verbatim>\<open>AssertionError\<close>, no step has been taken
  (no method check, no verification, no blacklist check, no call of the wrapped view), no
  response is returned and the world is unchanged.
\<close>

theorem non_request_fails_assertion:
  assumes "\<forall>r. arg \<noteq> PyRequest r"
  shows "decorated_view e f arg args w = \<lparr>outcome = Inl AssertionError, calls = [], world = w\<rparr>"
  using assms by (cases arg) (simp_all add: decorated_view_def)

theorem non_request_fails_assertion_witness:
  "decorated_view ex_env ex_view (PyStr ''POST'') () 0 =
     \<lparr>outcome = Inl AssertionError, calls = [], world = 0\<rparr>"
  using non_request_fails_assertion [of "PyStr ''POST''" ex_env ex_view "()" 0]
  by simp

end
